theory Spec2Isabelle
  imports Complex_Main "HOL-Library.Log_Nat"
begin

section \<open>The account store\<close>

text \<open>
  \<^verbatim>\<open>users\<close> is the module-level dictionary of \<^verbatim>\<open>main.py\<close>, keyed by \<^verbatim>\<open>str(user_id)\<close>.
  \<^verbatim>\<open>str\<close> is injective on integers, so the model keys the store by the integer id.
  An account is the dictionary that \<^verbatim>\<open>get_user_data\<close> creates; its fields keep their
  names. Timestamps are stored as strings (\<^verbatim>\<open>boost_end\<close> may also be \<^verbatim>\<open>None\<close>).
\<close>

record user =
  balance :: int
  last_daily :: string
  steals :: "string list"
  items :: "string list"
  boost_end :: "string option"
  games_played :: int
  total_winnings :: int
  total_losses :: int

type_synonym users = "int \<rightharpoonup> user"

definition default_user :: user where
  "default_user =
     \<lparr>balance = 500, last_daily = [], steals = [], items = [], boost_end = None,
      games_played = 0, total_winnings = 0, total_losses = 0\<rparr>"

text \<open>
  \<^verbatim>\<open>get_user_data\<close> returns a reference into the store; the model returns the record
  together with the store, in which a missing account has been created.
\<close>

definition get_user_data :: "users \<Rightarrow> int \<Rightarrow> user \<times> users" where
  "get_user_data us uid =
     (case us uid of
        None \<Rightarrow> (default_user, us(uid \<mapsto> default_user))
      | Some u \<Rightarrow> (u, us))"

section \<open>Library functions\<close>

text \<open>
  The standard-library calls of \<^verbatim>\<open>main.py\<close> on dates and strings are parameters of the
  model. A \<^verbatim>\<open>datetime\<close> is the number of microseconds since the epoch; the program
  only ever creates naive UTC values with \<^verbatim>\<open>datetime.utcnow()\<close>, and every reading of the
  clock is an argument of the command that makes it.
  \<^item> \<open>fromisoformat\<close>: \<^verbatim>\<open>datetime.fromisoformat\<close>, \<open>None\<close> where Python raises
    \<^verbatim>\<open>ValueError\<close>;
  \<^item> \<open>isoformat\<close>: \<^verbatim>\<open>dt.isoformat()\<close>;
  \<^item> \<open>date_str\<close>: \<^verbatim>\<open>str(dt.date())\<close>;
  \<^item> \<open>str_lower\<close>: \<^verbatim>\<open>s.lower()\<close>.
\<close>

record pylib =
  fromisoformat :: "string \<Rightarrow> int option"
  isoformat :: "int \<Rightarrow> string"
  date_str :: "int \<Rightarrow> string"
  str_lower :: "string \<Rightarrow> string"

definition hours :: "int \<Rightarrow> int" where
  "hours h = h * 3600000000"

text \<open>
  \<^verbatim>\<open>random.randint(lo, hi)\<close> and \<^verbatim>\<open>random.choice(xs)\<close> read the generator; the model
  takes the generator's raw draw \<open>g\<close> as an argument and selects with it. Every call of
  \<^verbatim>\<open>randint\<close> in the program has a non-empty range, and every call of \<^verbatim>\<open>choice\<close> a
  non-empty list.
\<close>

definition randint :: "int \<Rightarrow> int \<Rightarrow> nat \<Rightarrow> int" where
  "randint lo hi g = lo + int g mod (hi - lo + 1)"

definition choice :: "'a list \<Rightarrow> nat \<Rightarrow> 'a" where
  "choice xs g = xs ! (g mod length xs)"

text \<open>\<^verbatim>\<open>s.replace(" ", "_")\<close> and the substring test \<^verbatim>\<open>"boost" in objet\<close>.\<close>

definition replace_spaces :: "string \<Rightarrow> string" where
  "replace_spaces s = map (\<lambda>c. if c = CHR '' '' then CHR ''_'' else c) s"

fun starts_with :: "string \<Rightarrow> string \<Rightarrow> bool" where
  "starts_with [] s = True"
| "starts_with (p # ps) [] = False"
| "starts_with (p # ps) (c # cs) = (p = c \<and> starts_with ps cs)"

fun contains :: "string \<Rightarrow> string \<Rightarrow> bool" where
  "contains sub [] = starts_with sub []"
| "contains sub (c # cs) = (starts_with sub (c # cs) \<or> contains sub cs)"

section \<open>The product \<^verbatim>\<open>int(mise * 1.8)\<close>\<close>

text \<open>
  \<^verbatim>\<open>mise * 1.8\<close> converts the integer to a double, multiplies two doubles and rounds the
  product to a double; \<^verbatim>\<open>int\<close> then truncates. Doubles carry 53 significant bits and
  round to nearest, ties to even. The double written \<^verbatim>\<open>1.8\<close> is
  \<open>8106479329266893 / 2^52\<close>. \<open>round53 x\<close> rounds a non-negative integer to 53
  significant bits; applied to \<open>f * 8106479329266893\<close> it gives the rounded product
  scaled by \<open>2^52\<close>. A value of \<open>2^1024\<close> or more is out of the doubles' range: the
  conversion raises \<^verbatim>\<open>OverflowError\<close>, and an infinite product makes \<^verbatim>\<open>int\<close> raise it.
\<close>

definition round_half_even :: "int \<Rightarrow> nat \<Rightarrow> int" where
  "round_half_even x s =
     (let q = x div 2 ^ s; r = x mod 2 ^ s
      in if 2 * r > 2 ^ s \<or> (2 * r = 2 ^ s \<and> odd q) then q + 1 else q)"

definition round53 :: "int \<Rightarrow> int" where
  "round53 x =
     (let n = bitlen x
      in if n \<le> 53 then x else round_half_even x (nat (n - 53)) * 2 ^ nat (n - 53))"

definition double_1_8 :: int where
  "double_1_8 = 8106479329266893"

definition int_mul_1_8_nonneg :: "int \<Rightarrow> int option" where
  "int_mul_1_8_nonneg m =
     (let f = round53 m
      in if f \<ge> 2 ^ 1024 then None
         else let r = round53 (f * double_1_8)
              in if r \<ge> 2 ^ 1076 then None else Some (r div 2 ^ 52))"

definition int_mul_1_8 :: "int \<Rightarrow> int option" where
  "int_mul_1_8 m =
     (if m < 0 then map_option uminus (int_mul_1_8_nonneg (- m)) else int_mul_1_8_nonneg m)"

section \<open>Boosts, steals, bets\<close>

definition has_boost :: "pylib \<Rightarrow> int \<Rightarrow> user \<Rightarrow> bool" where
  "has_boost lib now u =
     (case boost_end u of
        None \<Rightarrow> False
      | Some s \<Rightarrow>
          if s = [] then False
          else (case fromisoformat lib s of
                  None \<Rightarrow> False
                | Some boost_end_dt \<Rightarrow> now < boost_end_dt))"

definition get_boost_multiplier :: "pylib \<Rightarrow> int \<Rightarrow> user \<Rightarrow> int" where
  "get_boost_multiplier lib now u =
     (if \<not> has_boost lib now u then 1
      else if ''boost_x3'' \<in> set (items u) then 3
      else if ''boost_x2'' \<in> set (items u) then 2
      else 1)"

definition apply_boost :: "pylib \<Rightarrow> int \<Rightarrow> int \<Rightarrow> user \<Rightarrow> int" where
  "apply_boost lib now montant u = montant * get_boost_multiplier lib now u"

definition reset_steals_if_needed :: "pylib \<Rightarrow> int \<Rightarrow> user \<Rightarrow> user" where
  "reset_steals_if_needed lib now u =
     u\<lparr>steals := filter (\<lambda>s. s = date_str lib now) (steals u)\<rparr>"

datatype rejection =
    StakeNotPositive | StakeExceedsBalance | InvalidColour
  | UnknownItem | NotEnoughCoins | AlreadyOwned
  | DailyTooSoon
  | InvalidTarget | QuotaExceeded | VictimTooPoor
  | GiftToBot | GiftToSelf | GiftNotPositive | GiftExceedsBalance
  | NotOwner

datatype outcome =
    Won int | Push | Lost
  | Claimed int | Bought
  | Caught | Stole int
  | Gifted | Credited | Debited

datatype py_error = OverflowError

datatype reply = Rejected rejection | Done outcome | Raised py_error

definition validate_bet :: "user \<Rightarrow> int \<Rightarrow> rejection option" where
  "validate_bet u mise =
     (if mise \<le> 0 then Some StakeNotPositive
      else if mise > balance u then Some StakeExceedsBalance
      else None)"

definition record_game_result :: "user \<Rightarrow> int \<Rightarrow> int \<Rightarrow> user" where
  "record_game_result u mise gain =
     (let u1 = u\<lparr>games_played := games_played u + 1\<rparr>
      in if gain > mise then u1\<lparr>total_winnings := total_winnings u1 + (gain - mise)\<rparr>
         else u1\<lparr>total_losses := total_losses u1 + mise\<rparr>)"

section \<open>Blackjack hand value\<close>

text \<open>
  The loop of \<^verbatim>\<open>get_hand_value\<close>: \<^verbatim>\<open>while total > 21 and aces > 0: total -= 10; aces -= 1\<close>.
\<close>

function reduce_aces :: "int \<Rightarrow> nat \<Rightarrow> int" where
  "reduce_aces tot aces =
     (if tot > 21 \<and> aces > 0 then reduce_aces (tot - 10) (aces - 1) else tot)"
  by pat_completeness auto
termination
  by (relation "measure (\<lambda>(tot, aces). aces)") auto

declare reduce_aces.simps [simp del]

definition get_hand_value :: "int list \<Rightarrow> int" where
  "get_hand_value cards = reduce_aces (sum_list cards) (count_list cards 11)"

section \<open>Daily claim and shop\<close>

definition daily :: "pylib \<Rightarrow> int \<Rightarrow> int \<Rightarrow> users \<Rightarrow> int \<Rightarrow> reply \<times> users" where
  "daily lib now t_boost us uid =
     (let (u, us1) = get_user_data us uid;
          too_soon =
            (if last_daily u \<noteq> [] then
               (case fromisoformat lib (last_daily u) of
                  None \<Rightarrow> False
                | Some last_dt \<Rightarrow> now - last_dt < hours 24)
             else False)
      in if too_soon then (Rejected DailyTooSoon, us1)
         else let gain = apply_boost lib t_boost 100 u;
                  u1 = u\<lparr>balance := balance u + gain\<rparr>;
                  u2 = u1\<lparr>last_daily := isoformat lib now\<rparr>
              in (Done (Claimed gain), us1(uid \<mapsto> u2)))"

text \<open>The catalogue \<^verbatim>\<open>shop_items\<close>, in its order, with the prices (\<^verbatim>\<open>prix\<close>).\<close>

definition shop_items :: "(string \<times> int) list" where
  "shop_items =
     [(''role_vip'', 1000), (''ticket_loterie'', 250), (''boost_x2'', 1200),
      (''emoji_special'', 300), (''badge'', 500), (''boost_x3'', 2000),
      (''skin_slot'', 900), (''extra_steal'', 1500)]"

definition acheter :: "pylib \<Rightarrow> int \<Rightarrow> users \<Rightarrow> int \<Rightarrow> string \<Rightarrow> reply \<times> users" where
  "acheter lib now us uid objet0 =
     (let (u, us1) = get_user_data us uid;
          objet = replace_spaces (str_lower lib objet0)
      in case map_of shop_items objet of
           None \<Rightarrow> (Rejected UnknownItem, us1)
         | Some prix \<Rightarrow>
             if balance u < prix then (Rejected NotEnoughCoins, us1)
             else if objet \<in> set (items u) then (Rejected AlreadyOwned, us1)
             else let u1 = u\<lparr>balance := balance u - prix\<rparr>;
                      u2 = u1\<lparr>items := items u1 @ [objet]\<rparr>;
                      u3 = (if contains ''boost'' objet
                            then u2\<lparr>boost_end := Some (isoformat lib (now + hours 1))\<rparr>
                            else u2)
                  in (Done Bought, us1(uid \<mapsto> u3)))"

section \<open>Steal, owner commands, gift\<close>

text \<open>
  \<open>t_reset\<close> is the clock read by \<^verbatim>\<open>reset_steals_if_needed\<close>, \<open>now\<close> the one read by
  \<^verbatim>\<open>steal\<close> itself; \<open>p\<close> is the value of \<^verbatim>\<open>random.random()\<close> and \<open>g\<close> the raw draw of
  \<^verbatim>\<open>random.randint\<close>. A double is above the double \<^verbatim>\<open>0.7\<close> exactly when it is above
  \<open>7/10\<close>, the double nearest to it lying just below.
\<close>

definition steal ::
  "pylib \<Rightarrow> int \<Rightarrow> int \<Rightarrow> users \<Rightarrow> int \<Rightarrow> int \<Rightarrow> bool \<Rightarrow> real \<Rightarrow> nat \<Rightarrow> reply \<times> users" where
  "steal lib t_reset now us author cible cible_bot p g =
     (if cible_bot \<or> cible = author then (Rejected InvalidTarget, us)
      else
        let (u0, us1) = get_user_data us author;
            (cible_user, us2) = get_user_data us1 cible;
            u = reset_steals_if_needed lib t_reset u0;
            us3 = us2(author \<mapsto> u);
            today_str = date_str lib now;
            steals_today = steals u;
            max_steals = (if ''extra_steal'' \<in> set (items u) then 4 else 3 :: nat)
        in if length steals_today \<ge> max_steals then (Rejected QuotaExceeded, us3)
           else if balance cible_user < 50 then (Rejected VictimTooPoor, us3)
           else if p > 7 / 10
             then (Done Caught, us3(author \<mapsto> u\<lparr>steals := steals_today @ [today_str]\<rparr>))
           else
             let gain = randint 20 (min 100 (balance cible_user div 2)) g;
                 c1 = cible_user\<lparr>balance := balance cible_user - gain\<rparr>;
                 u1 = u\<lparr>balance := balance u + gain\<rparr>;
                 u2 = u1\<lparr>steals := steals_today @ [today_str]\<rparr>
             in (Done (Stole gain), us3(cible \<mapsto> c1, author \<mapsto> u2)))"

text \<open>
  \<^verbatim>\<open>give\<close> and \<^verbatim>\<open>remove\<close> carry the check \<^verbatim>\<open>@commands.is_owner()\<close>, which refuses the
  call before the body runs; \<open>is_owner\<close> is its verdict on the caller.
\<close>

definition give :: "bool \<Rightarrow> users \<Rightarrow> int \<Rightarrow> int \<Rightarrow> reply \<times> users" where
  "give is_owner us member amount =
     (if \<not> is_owner then (Rejected NotOwner, us)
      else let (u, us1) = get_user_data us member
           in (Done Credited, us1(member \<mapsto> u\<lparr>balance := balance u + amount\<rparr>)))"

definition remove :: "bool \<Rightarrow> users \<Rightarrow> int \<Rightarrow> int \<Rightarrow> reply \<times> users" where
  "remove is_owner us member amount =
     (if \<not> is_owner then (Rejected NotOwner, us)
      else let (u, us1) = get_user_data us member
           in (Done Debited, us1(member \<mapsto> u\<lparr>balance := max (balance u - amount) 0\<rparr>)))"

definition don :: "users \<Rightarrow> int \<Rightarrow> int \<Rightarrow> bool \<Rightarrow> int \<Rightarrow> reply \<times> users" where
  "don us author membre membre_bot montant =
     (let (donneur, us1) = get_user_data us author;
          (receveur, us2) = get_user_data us1 membre
      in if membre_bot then (Rejected GiftToBot, us2)
         else if membre = author then (Rejected GiftToSelf, us2)
         else if montant \<le> 0 then (Rejected GiftNotPositive, us2)
         else if balance donneur < montant then (Rejected GiftExceedsBalance, us2)
         else (Done Gifted,
               us2(author \<mapsto> donneur\<lparr>balance := balance donneur - montant\<rparr>,
                   membre \<mapsto> receveur\<lparr>balance := balance receveur + montant\<rparr>)))"

section \<open>The games\<close>

text \<open>
  Each game opens with the same lines: look the caller up, validate the stake, subtract
  it. The rest of the body, which draws and settles, is the function \<open>_play\<close> of the
  game; it receives the caller's record after the subtraction. \<open>t\<close> is the clock read
  by \<^verbatim>\<open>has_boost\<close> when a win is paid.
\<close>

definition coinflip_play ::
  "pylib \<Rightarrow> int \<Rightarrow> user \<Rightarrow> users \<Rightarrow> int \<Rightarrow> int \<Rightarrow> nat \<Rightarrow> nat \<Rightarrow> reply \<times> users" where
  "coinflip_play lib t u us uid mise g1 g2 =
     (let player_choice = choice [''pile'', ''face''] g1;
          bot_choice = choice [''pile'', ''face''] g2
      in if player_choice = bot_choice then
           let gain = apply_boost lib t (mise * 2) u;
               u1 = u\<lparr>balance := balance u + gain\<rparr>
           in (Done (Won gain), us(uid \<mapsto> record_game_result u1 mise gain))
         else (Done Lost, us(uid \<mapsto> record_game_result u mise 0)))"

definition coinflip ::
  "pylib \<Rightarrow> int \<Rightarrow> users \<Rightarrow> int \<Rightarrow> int \<Rightarrow> nat \<Rightarrow> nat \<Rightarrow> reply \<times> users" where
  "coinflip lib t us uid mise g1 g2 =
     (let (u, us1) = get_user_data us uid
      in case validate_bet u mise of
           Some r \<Rightarrow> (Rejected r, us1)
         | None \<Rightarrow> coinflip_play lib t (u\<lparr>balance := balance u - mise\<rparr>) us1 uid mise g1 g2)"

definition dice_play ::
  "pylib \<Rightarrow> int \<Rightarrow> user \<Rightarrow> users \<Rightarrow> int \<Rightarrow> int \<Rightarrow> nat \<Rightarrow> nat \<Rightarrow> reply \<times> users" where
  "dice_play lib t u us uid mise g1 g2 =
     (let player_roll = randint 1 6 g1;
          bot_roll = randint 1 6 g2
      in if player_roll > bot_roll then
           (case int_mul_1_8 mise of
              None \<Rightarrow> (Raised OverflowError, us(uid \<mapsto> u))
            | Some k \<Rightarrow>
                let gain = apply_boost lib t k u;
                    u1 = u\<lparr>balance := balance u + gain\<rparr>
                in (Done (Won gain), us(uid \<mapsto> record_game_result u1 mise gain)))
         else if player_roll = bot_roll then
           let u1 = u\<lparr>balance := balance u + mise\<rparr>
           in (Done Push, us(uid \<mapsto> record_game_result u1 mise mise))
         else (Done Lost, us(uid \<mapsto> record_game_result u mise 0)))"

definition dice ::
  "pylib \<Rightarrow> int \<Rightarrow> users \<Rightarrow> int \<Rightarrow> int \<Rightarrow> nat \<Rightarrow> nat \<Rightarrow> reply \<times> users" where
  "dice lib t us uid mise g1 g2 =
     (let (u, us1) = get_user_data us uid
      in case validate_bet u mise of
           Some r \<Rightarrow> (Rejected r, us1)
         | None \<Rightarrow> dice_play lib t (u\<lparr>balance := balance u - mise\<rparr>) us1 uid mise g1 g2)"

definition resultats :: "string list" where
  "resultats = replicate 18 ''rouge'' @ replicate 18 ''noir'' @ replicate 1 ''vert''"

definition roulette_play ::
  "pylib \<Rightarrow> int \<Rightarrow> user \<Rightarrow> users \<Rightarrow> int \<Rightarrow> int \<Rightarrow> string \<Rightarrow> nat \<Rightarrow> reply \<times> users" where
  "roulette_play lib t u us uid mise couleur g =
     (let resultat = choice resultats g
      in if couleur = resultat then
           let gain = (if couleur = ''vert'' then apply_boost lib t (mise * 35) u
                       else apply_boost lib t (mise * 2) u);
               u1 = u\<lparr>balance := balance u + gain\<rparr>
           in (Done (Won gain), us(uid \<mapsto> record_game_result u1 mise gain))
         else (Done Lost, us(uid \<mapsto> record_game_result u mise 0)))"

definition roulette ::
  "pylib \<Rightarrow> int \<Rightarrow> users \<Rightarrow> int \<Rightarrow> int \<Rightarrow> string \<Rightarrow> nat \<Rightarrow> reply \<times> users" where
  "roulette lib t us uid mise couleur0 g =
     (let couleur = str_lower lib couleur0
      in if couleur \<notin> set [''rouge'', ''noir'', ''vert''] then (Rejected InvalidColour, us)
         else
           let (u, us1) = get_user_data us uid
           in case validate_bet u mise of
                Some r \<Rightarrow> (Rejected r, us1)
              | None \<Rightarrow>
                  roulette_play lib t (u\<lparr>balance := balance u - mise\<rparr>) us1 uid mise couleur g)"

text \<open>
  Blackjack. \<open>gs\<close> is the sequence of raw draws behind \<^verbatim>\<open>get_card_value\<close>: the player's
  two cards are draws 0 and 1, the dealer's draws 2 and 3, and the dealer's loop
  \<^verbatim>\<open>while dealer_total < 17\<close> reads on from draw 4. The loop is defined without a bound on
  its length; \<open>None\<close> stands for a loop that never ends.
\<close>

definition get_card_value :: "nat \<Rightarrow> int" where
  "get_card_value g = randint 1 11 g"

partial_function (option) dealer_hits ::
  "(nat \<Rightarrow> nat) \<Rightarrow> nat \<Rightarrow> int list \<Rightarrow> int \<Rightarrow> (int list \<times> int) option" where
  "dealer_hits gs i dealer_cards dealer_total =
     (if dealer_total < 17 then
        dealer_hits gs (Suc i) (dealer_cards @ [get_card_value (gs i)])
          (get_hand_value (dealer_cards @ [get_card_value (gs i)]))
      else Some (dealer_cards, dealer_total))"

declare dealer_hits.simps [code]

definition blackjack_settle ::
  "pylib \<Rightarrow> int \<Rightarrow> user \<Rightarrow> users \<Rightarrow> int \<Rightarrow> int \<Rightarrow> int \<Rightarrow> int \<Rightarrow> reply \<times> users" where
  "blackjack_settle lib t u us uid mise player_total dealer_total =
     (if player_total > 21 then (Done Lost, us(uid \<mapsto> record_game_result u mise 0))
      else if dealer_total > 21 then
        let gain = apply_boost lib t (mise * 2) u;
            u1 = u\<lparr>balance := balance u + gain\<rparr>
        in (Done (Won gain), us(uid \<mapsto> record_game_result u1 mise gain))
      else if player_total > dealer_total then
        let gain = apply_boost lib t (mise * 2) u;
            u1 = u\<lparr>balance := balance u + gain\<rparr>
        in (Done (Won gain), us(uid \<mapsto> record_game_result u1 mise gain))
      else if player_total = dealer_total then
        let u1 = u\<lparr>balance := balance u + mise\<rparr>
        in (Done Push, us(uid \<mapsto> record_game_result u1 mise mise))
      else (Done Lost, us(uid \<mapsto> record_game_result u mise 0)))"

definition blackjack_play ::
  "pylib \<Rightarrow> int \<Rightarrow> user \<Rightarrow> users \<Rightarrow> int \<Rightarrow> int \<Rightarrow> (nat \<Rightarrow> nat) \<Rightarrow> (reply \<times> users) option" where
  "blackjack_play lib t u us uid mise gs =
     (let player_cards = [get_card_value (gs 0), get_card_value (gs 1)];
          dealer_cards = [get_card_value (gs 2), get_card_value (gs 3)];
          player_total = get_hand_value player_cards
      in case dealer_hits gs 4 dealer_cards (get_hand_value dealer_cards) of
           None \<Rightarrow> None
         | Some (cards, dealer_total) \<Rightarrow>
             Some (blackjack_settle lib t u us uid mise player_total dealer_total))"

definition blackjack ::
  "pylib \<Rightarrow> int \<Rightarrow> users \<Rightarrow> int \<Rightarrow> int \<Rightarrow> (nat \<Rightarrow> nat) \<Rightarrow> (reply \<times> users) option" where
  "blackjack lib t us uid mise gs =
     (let (u, us1) = get_user_data us uid
      in case validate_bet u mise of
           Some r \<Rightarrow> Some (Rejected r, us1)
         | None \<Rightarrow> blackjack_play lib t (u\<lparr>balance := balance u - mise\<rparr>) us1 uid mise gs)"

text \<open>
  The slot machine. The eight symbols are the emoji of \<^verbatim>\<open>symbols\<close> in their order, and
  \<open>reel\<close> is \<^verbatim>\<open>random.choices(symbols, weights=weights)[0]\<close> for the weights
  20, 20, 20, 15, 15, 5, 3, 2, which sum to 100.
\<close>

datatype symbol = Apple | Orange | Lemon | Grapes | Cherry | Gem | Star | Seven

definition reel :: "nat \<Rightarrow> symbol" where
  "reel g =
     (let r = g mod 100
      in if r < 20 then Apple else if r < 40 then Orange else if r < 60 then Lemon
         else if r < 75 then Grapes else if r < 90 then Cherry else if r < 95 then Gem
         else if r < 98 then Star else Seven)"

definition slot_multiplier :: "symbol \<Rightarrow> symbol \<Rightarrow> symbol \<Rightarrow> int" where
  "slot_multiplier reel1 reel2 reel3 =
     (if reel1 = reel2 \<and> reel2 = reel3 then
        (if reel1 = Seven then 50
         else if reel1 = Star then 25
         else if reel1 = Gem then 15
         else if reel1 = Cherry then 10
         else 5)
      else if reel1 = reel2 \<or> reel2 = reel3 \<or> reel1 = reel3 then 2
      else 0)"

definition slot_play ::
  "pylib \<Rightarrow> int \<Rightarrow> user \<Rightarrow> users \<Rightarrow> int \<Rightarrow> int \<Rightarrow> nat \<Rightarrow> nat \<Rightarrow> nat \<Rightarrow> reply \<times> users" where
  "slot_play lib t u us uid mise g1 g2 g3 =
     (let multiplier = slot_multiplier (reel g1) (reel g2) (reel g3)
      in if multiplier > 0 then
           let gain = apply_boost lib t (mise * multiplier) u;
               u1 = u\<lparr>balance := balance u + gain\<rparr>
           in (Done (Won gain), us(uid \<mapsto> record_game_result u1 mise gain))
         else (Done Lost, us(uid \<mapsto> record_game_result u mise 0)))"

definition slot ::
  "pylib \<Rightarrow> int \<Rightarrow> users \<Rightarrow> int \<Rightarrow> int \<Rightarrow> nat \<Rightarrow> nat \<Rightarrow> nat \<Rightarrow> reply \<times> users" where
  "slot lib t us uid mise g1 g2 g3 =
     (let (u, us1) = get_user_data us uid
      in case validate_bet u mise of
           Some r \<Rightarrow> (Rejected r, us1)
         | None \<Rightarrow> slot_play lib t (u\<lparr>balance := balance u - mise\<rparr>) us1 uid mise g1 g2 g3)"

section \<open>Commands\<close>

text \<open>
  A command of the bot with its arguments, the clock readings it makes and the raw
  draws it consumes. \<open>exec\<close> runs it on the store; only blackjack can fail to return.
\<close>

datatype command =
    Daily int int int
  | Acheter int string int
  | Coinflip int int int nat nat
  | Dice int int int nat nat
  | Roulette int int string int nat
  | Blackjack int int int "nat \<Rightarrow> nat"
  | Slot int int int nat nat nat
  | Steal int int bool int int real nat
  | Give bool int int
  | Remove bool int int
  | Don int int bool int

fun exec :: "pylib \<Rightarrow> users \<Rightarrow> command \<Rightarrow> (reply \<times> users) option" where
  "exec lib us (Daily uid now t_boost) = Some (daily lib now t_boost us uid)"
| "exec lib us (Acheter uid objet now) = Some (acheter lib now us uid objet)"
| "exec lib us (Coinflip uid mise t g1 g2) = Some (coinflip lib t us uid mise g1 g2)"
| "exec lib us (Dice uid mise t g1 g2) = Some (dice lib t us uid mise g1 g2)"
| "exec lib us (Roulette uid mise couleur t g) = Some (roulette lib t us uid mise couleur g)"
| "exec lib us (Blackjack uid mise t gs) = blackjack lib t us uid mise gs"
| "exec lib us (Slot uid mise t g1 g2 g3) = Some (slot lib t us uid mise g1 g2 g3)"
| "exec lib us (Steal author cible cible_bot t_reset now p g) =
     Some (steal lib t_reset now us author cible cible_bot p g)"
| "exec lib us (Give is_owner member amount) = Some (give is_owner us member amount)"
| "exec lib us (Remove is_owner member amount) = Some (remove is_owner us member amount)"
| "exec lib us (Don author membre membre_bot montant) =
     Some (don us author membre membre_bot montant)"

text \<open>
  A small library for concrete runs. One timestamp string parses, to the instant 1000,
  and every instant is written as that string and falls on the same day; lower-casing
  leaves a string as it is, as it does on the lower-case names used in the runs.
\<close>

definition lib0 :: pylib where
  "lib0 =
     \<lparr>fromisoformat = (\<lambda>s. if s = ''2030-01-01T00:00:00'' then Some 1000 else None),
      isoformat = (\<lambda>t. ''2030-01-01T00:00:00''),
      date_str = (\<lambda>t. ''2030-01-01''),
      str_lower = (\<lambda>s. s)\<rparr>"

section \<open>The specification's wording, and data for concrete runs\<close>



text \<open>
  The statistics rule of the specification, for a game that credited \<open>payout\<close> on a
  stake \<open>mise\<close>: one more game played; the excess of the payout over the stake added to
  the winnings if the payout exceeds the stake, the stake added to the losses if not.
\<close>

definition stats_recorded :: "user \<Rightarrow> user \<Rightarrow> int \<Rightarrow> int \<Rightarrow> bool" where
  "stats_recorded u u' mise payout =
     (games_played u' = games_played u + 1
      \<and> (if payout > mise
          then total_winnings u' = total_winnings u + (payout - mise)
               \<and> total_losses u' = total_losses u
          else total_losses u' = total_losses u + mise
               \<and> total_winnings u' = total_winnings u))"

text \<open>The caller and the stake of a game command.\<close>

definition game_of :: "command \<Rightarrow> (int \<times> int) option" where
  "game_of c =
     (case c of
        Coinflip uid mise t g1 g2 \<Rightarrow> Some (uid, mise)
      | Dice uid mise t g1 g2 \<Rightarrow> Some (uid, mise)
      | Roulette uid mise couleur t g \<Rightarrow> Some (uid, mise)
      | Blackjack uid mise t gs \<Rightarrow> Some (uid, mise)
      | Slot uid mise t g1 g2 g3 \<Rightarrow> Some (uid, mise)
      | _ \<Rightarrow> None)"

text \<open>
  A completed game, seen from the caller's record \<open>u\<close> before the bet: the payout is
  what the game credited after the stake was taken.
\<close>

definition settled :: "user \<Rightarrow> int \<Rightarrow> int \<Rightarrow> reply \<times> users \<Rightarrow> bool" where
  "settled u uid mise res =
     (case res of
        (Done out, us') \<Rightarrow>
          (\<exists>u'. us' uid = Some u'
                \<and> stats_recorded u u' mise (balance u' - (balance u - mise))
                \<and> (out = Push \<longrightarrow> balance u' = balance u))
      | _ \<Rightarrow> True)"

definition u_push :: user where
  "u_push = default_user\<lparr>games_played := 1, total_losses := 100\<rparr>"



text \<open>Accounts for the shop: before and after buying \<^verbatim>\<open>boost_x2\<close> with exactly its price.\<close>

definition u_rich :: user where
  "u_rich = default_user\<lparr>balance := 1200\<rparr>"

definition u_owner :: user where
  "u_owner = default_user\<lparr>balance := 0, items := [''boost_x2''],
                            boost_end := Some ''2030-01-01T00:00:00''\<rparr>"




text \<open>
  The invariant of the store: no account has a negative balance. \<open>credit_covered\<close>
  singles out the owner's credits that do not take the account below zero.
\<close>

definition balances_nonneg :: "users \<Rightarrow> bool" where
  "balances_nonneg us = (\<forall>k a. us k = Some a \<longrightarrow> 0 \<le> balance a)"

definition credit_covered :: "users \<Rightarrow> command \<Rightarrow> bool" where
  "credit_covered us cmd =
     (case cmd of
        Give is_owner member amount \<Rightarrow>
          is_owner \<longrightarrow> 0 \<le> balance (fst (get_user_data us member)) + amount
      | _ \<Rightarrow> True)"



text \<open>The hand with every card valued 11 counted as 1: the least value the reducer can reach.\<close>

definition hard_total :: "int list \<Rightarrow> int" where
  "hard_total cards = sum_list cards - 10 * int (count_list cards 11)"

text \<open>
  The specification's \<^verbatim>\<open>floor(1.8 * stake)\<close>, over the reals, and an account rich enough
  for a stake beyond 2 to the power 50.
\<close>

definition spec_floor_1_8 :: "int \<Rightarrow> int" where
  "spec_floor_1_8 stake = \<lfloor>1.8 * real_of_int stake\<rfloor>"

definition u_whale :: user where
  "u_whale = default_user\<lparr>balance := 1250999896491806\<rparr>"

section \<open>Hand value: what the reducer computes\<close>

lemma reduce_aces_closed:
  "reduce_aces t a = (if t \<le> 21 then t else t - 10 * min (int a) ((t - 12) div 10))"
proof (induction t a rule: reduce_aces.induct)
  case (1 tot aces)
  show ?case
  proof (cases "tot > 21 \<and> aces > 0")
    case True
    then have step: "reduce_aces tot aces = reduce_aces (tot - 10) (aces - 1)"
      by (subst reduce_aces.simps) simp
    from True have a: "int (aces - 1) = int aces - 1" by simp
    show ?thesis
    proof (cases "tot - 10 \<le> 21")
      case le: True
      with True have "(tot - 12) div 10 = 1" by presburger
      with le True "1.IH" step show ?thesis by simp
    next
      case gt: False
      have d: "(tot - 10 - 12) div 10 = (tot - 12) div 10 - 1"
        by presburger
      from gt True "1.IH" step a d show ?thesis
        by (simp add: min_def)
    qed
  next
    case False
    then have stop: "reduce_aces tot aces = tot"
      by (subst reduce_aces.simps) auto
    show ?thesis
    proof (cases "tot \<le> 21")
      case True
      with stop show ?thesis by simp
    next
      case gt: False
      with False have "aces = 0" by simp
      moreover from gt have "0 \<le> (tot - 12) div 10" by presburger
      ultimately show ?thesis using stop gt by (simp add: min_def)
    qed
  qed
qed

text \<open>
  C8. The hand value is the sum of the cards, lowered by ten for each card valued 11
  for as long as the total is above 21 and such a card is left: the number of
  reductions is the smaller of the number of elevens and of the tens needed to come
  down to 21. The hand 11, 11, 10 is worth 12 and the hand 10, 10, 5 is worth 25,
  which is above 21.
\<close>

theorem get_hand_value_reducer:
  "get_hand_value cards =
     (if sum_list cards \<le> 21 then sum_list cards
      else sum_list cards
           - 10 * min (int (count_list cards 11)) ((sum_list cards - 12) div 10))
   \<and> get_hand_value [11, 11, 10] = 12
   \<and> get_hand_value [10, 10, 5] = 25
   \<and> 21 < get_hand_value [10, 10, 5]"
  by (simp add: get_hand_value_def reduce_aces_closed)

section \<open>The boost multiplier\<close>




section \<open>Game statistics\<close>

lemma record_stats:
  "stats_recorded u (record_game_result (u\<lparr>balance := b\<rparr>) mise gain) mise gain"
  by (simp add: stats_recorded_def record_game_result_def Let_def)

lemma record_stats0:
  "stats_recorded u (record_game_result u mise gain) mise gain"
  by (simp add: stats_recorded_def record_game_result_def Let_def)

lemma record_balance:
  "balance (record_game_result u mise gain) = balance u"
  by (simp add: record_game_result_def Let_def)

lemma coinflip_play_settled:
  "settled u uid mise (coinflip_play lib t (u\<lparr>balance := balance u - mise\<rparr>) us uid mise g1 g2)"
  using record_stats [of u _ mise] record_stats0 [of u mise]
  by (simp add: settled_def coinflip_play_def Let_def record_balance)

lemma dice_play_settled:
  "settled u uid mise (dice_play lib t (u\<lparr>balance := balance u - mise\<rparr>) us uid mise g1 g2)"
  using record_stats [of u _ mise] record_stats0 [of u mise]
  by (simp add: settled_def dice_play_def Let_def record_balance split: option.splits)

lemma roulette_play_settled:
  "settled u uid mise (roulette_play lib t (u\<lparr>balance := balance u - mise\<rparr>) us uid mise c g)"
  using record_stats [of u _ mise] record_stats0 [of u mise]
  by (simp add: settled_def roulette_play_def Let_def record_balance)

lemma slot_play_settled:
  "settled u uid mise (slot_play lib t (u\<lparr>balance := balance u - mise\<rparr>) us uid mise g1 g2 g3)"
  using record_stats [of u _ mise] record_stats0 [of u mise]
  by (simp add: settled_def slot_play_def Let_def record_balance)

lemma blackjack_settle_settled:
  "settled u uid mise (blackjack_settle lib t (u\<lparr>balance := balance u - mise\<rparr>) us uid mise p d)"
  using record_stats [of u _ mise] record_stats0 [of u mise]
  by (simp add: settled_def blackjack_settle_def Let_def record_balance)

lemma game_settled:
  assumes "exec lib us cmd = Some (Done out, us')"
    and "game_of cmd = Some (uid, mise)"
    and g: "get_user_data us uid = (u, us1)"
  shows "settled u uid mise (Done out, us')"
proof (cases cmd)
  case (Coinflip a m t g1 g2)
  with assms coinflip_play_settled [of u uid mise lib t us1 g1 g2] show ?thesis
    by (auto simp: game_of_def coinflip_def split: option.splits)
next
  case (Dice a m t g1 g2)
  with assms dice_play_settled [of u uid mise lib t us1 g1 g2] show ?thesis
    by (auto simp: game_of_def dice_def split: option.splits)
next
  case (Roulette a m c t gg)
  with assms roulette_play_settled [of u uid mise lib t us1 "str_lower lib c" gg] show ?thesis
    by (auto simp: game_of_def roulette_def Let_def split: option.splits if_splits)
next
  case (Blackjack a m t gs)
  with assms obtain p d where
    "blackjack_settle lib t (u\<lparr>balance := balance u - mise\<rparr>) us1 uid mise p d = (Done out, us')"
    by (auto simp: game_of_def blackjack_def blackjack_play_def Let_def
        split: option.splits prod.splits)
  with blackjack_settle_settled [of u uid mise lib t us1 p d] show ?thesis
    by simp
next
  case (Slot a m t g1 g2 g3)
  with assms slot_play_settled [of u uid mise lib t us1 g1 g2 g3] show ?thesis
    by (auto simp: game_of_def slot_def split: option.splits)
qed (use assms in \<open>simp_all add: game_of_def\<close>)

text \<open>
  C3. Every completed game call (coinflip, dice, roulette, blackjack, slot) adds exactly
  1 to \<^verbatim>\<open>games_played\<close>; with the payout being what the game credited to the balance
  after taking the stake, it adds the payout less the stake to \<^verbatim>\<open>total_winnings\<close> when
  the payout strictly exceeds the stake, and the full stake to \<^verbatim>\<open>total_losses\<close>
  otherwise. A push leaves the balance as it was before the bet and still adds the full
  stake to \<^verbatim>\<open>total_losses\<close>. The first conjunct is \<^verbatim>\<open>record_game_result\<close> itself.
\<close>

theorem game_statistics:
  assumes "exec lib us cmd = Some (Done out, us')"
    and "game_of cmd = Some (uid, mise)"
  shows "stats_recorded v (record_game_result v mise gain) mise gain
         \<and> (\<exists>u'. us' uid = Some u'
               \<and> stats_recorded (fst (get_user_data us uid)) u' mise
                     (balance u' - (balance (fst (get_user_data us uid)) - mise))
               \<and> (out = Push \<longrightarrow>
                     balance u' = balance (fst (get_user_data us uid))
                     \<and> total_losses u' = total_losses (fst (get_user_data us uid)) + mise))"
proof -
  obtain u us1 where g: "get_user_data us uid = (u, us1)"
    by (cases "get_user_data us uid")
  from assms g have "settled u uid mise (Done out, us')"
    by (rule game_settled)
  then obtain u' where a: "us' uid = Some u'"
    and b: "stats_recorded u u' mise (balance u' - (balance u - mise))"
    and c: "out = Push \<longrightarrow> balance u' = balance u"
    by (auto simp: settled_def)
  have d: "out = Push \<longrightarrow> total_losses u' = total_losses u + mise"
  proof
    assume "out = Push"
    with c have "balance u' - (balance u - mise) = mise" by simp
    with b show "total_losses u' = total_losses u + mise"
      by (simp add: stats_recorded_def)
  qed
  from a b c d record_stats0 [of v mise gain] show ?thesis
    unfolding g fst_conv by blast
qed

theorem game_statistics_witness:
  "exec lib0 Map.empty (Dice 1 100 0 3 9) = Some (Done Push, [1 \<mapsto> u_push])
   \<and> game_of (Dice 1 100 0 3 9) = Some (1, 100)
   \<and> balance u_push = 500 \<and> games_played u_push = 1
   \<and> total_losses u_push = 100 \<and> total_winnings u_push = 0"
proof -
  have run: "exec lib0 Map.empty (Dice 1 100 0 3 9) = Some (Done Push, [1 \<mapsto> u_push])"
    by (simp add: dice_def dice_play_def get_user_data_def validate_bet_def default_user_def
        randint_def record_game_result_def u_push_def Let_def)
  have g: "game_of (Dice 1 100 0 3 9) = Some (1, 100)"
    by (simp add: game_of_def)
  from game_statistics [OF run g] run g show ?thesis
    by (simp add: get_user_data_def default_user_def u_push_def)
qed

section \<open>Stake validation and deduction\<close>














section \<open>Buying an item already owned\<close>

text \<open>
  C5 (amended). For every account that already owns a shop item, purchasing that item
  again is rejected and leaves the store unchanged, whatever the boost expiry: with
  \<^verbatim>\<open>AlreadyOwned\<close> when the balance still covers the price, and with the insufficient-funds
  rejection when it does not, because \<^verbatim>\<open>acheter\<close> compares the balance with the price
  before it looks at the inventory.
\<close>

theorem acheter_owned:
  assumes "us uid = Some u"
    and "objet = replace_spaces (str_lower lib objet0)"
    and "objet \<in> set (items u)"
    and "map_of shop_items objet = Some prix"
  shows "acheter lib now us uid objet0
         = (Rejected (if balance u < prix then NotEnoughCoins else AlreadyOwned), us)"
  using assms by (simp add: acheter_def get_user_data_def Let_def)

theorem acheter_owned_witness:
  "acheter lib0 5 [1 \<mapsto> u_owner] 1 ''boost_x2'' = (Rejected NotEnoughCoins, [1 \<mapsto> u_owner])
   \<and> acheter lib0 5 [1 \<mapsto> u_owner\<lparr>balance := 1200\<rparr>] 1 ''boost_x2''
       = (Rejected AlreadyOwned, [1 \<mapsto> u_owner\<lparr>balance := 1200\<rparr>])"
proof -
  have n: "''boost_x2'' = replace_spaces (str_lower lib0 ''boost_x2'')"
    by (simp add: replace_spaces_def lib0_def)
  have p: "map_of shop_items ''boost_x2'' = Some 1200"
    by (simp add: shop_items_def)
  have o: "''boost_x2'' \<in> set (items u_owner)"
    "''boost_x2'' \<in> set (items (u_owner\<lparr>balance := 1200\<rparr>))"
    by (simp_all add: u_owner_def)
  have "balance u_owner < 1200" "\<not> balance (u_owner\<lparr>balance := 1200\<rparr>) < 1200"
    by (simp_all add: u_owner_def)
  with acheter_owned [of "[1 \<mapsto> u_owner]" 1 u_owner _ lib0 _ 1200 5, OF _ n o(1) p]
    acheter_owned [of "[1 \<mapsto> u_owner\<lparr>balance := 1200\<rparr>]" 1 "u_owner\<lparr>balance := 1200\<rparr>"
      _ lib0 _ 1200 5, OF _ n o(2) p]
  show ?thesis by simp
qed

text \<open>
  Buying \<^verbatim>\<open>boost_x2\<close> twice in a row with a balance of 1200: the first purchase succeeds
  and empties the balance, the second is rejected for insufficient funds, not as
  already owned.
\<close>

theorem acheter_twice_counterexample:
  "acheter lib0 5 [1 \<mapsto> u_rich] 1 ''boost_x2'' = (Done Bought, [1 \<mapsto> u_owner])
   \<and> ''boost_x2'' \<in> set (items u_owner)
   \<and> acheter lib0 5 [1 \<mapsto> u_owner] 1 ''boost_x2'' = (Rejected NotEnoughCoins, [1 \<mapsto> u_owner])
   \<and> fst (acheter lib0 5 [1 \<mapsto> u_owner] 1 ''boost_x2'') \<noteq> Rejected AlreadyOwned"
  by (simp add: acheter_def get_user_data_def Let_def replace_spaces_def lib0_def shop_items_def
      u_rich_def u_owner_def default_user_def hours_def)

section \<open>Steal\<close>

lemma randint_range:
  assumes "lo \<le> hi"
  shows "lo \<le> randint lo hi g \<and> randint lo hi g \<le> hi"
proof -
  from assms have pos: "0 < hi - lo + 1" by simp
  have "0 \<le> int g mod (hi - lo + 1) \<and> int g mod (hi - lo + 1) < hi - lo + 1"
    using pos_mod_sign [OF pos, of "int g"] pos_mod_bound [OF pos, of "int g"] by blast
  then show ?thesis by (simp add: randint_def)
qed

lemma randint_onto:
  assumes "lo \<le> x" and "x \<le> hi"
  shows "\<exists>!k. k < nat (hi - lo + 1) \<and> randint lo hi k = x"
proof (rule ex1I [of _ "nat (x - lo)"])
  from assms show "nat (x - lo) < nat (hi - lo + 1) \<and> randint lo hi (nat (x - lo)) = x"
    by (simp add: randint_def)
next
  fix k
  assume k: "k < nat (hi - lo + 1) \<and> randint lo hi k = x"
  then have "int k < hi - lo + 1" by linarith
  then have "int k mod (hi - lo + 1) = int k" by simp
  with k have "lo + int k = x" by (simp add: randint_def)
  then show "k = nat (x - lo)" by linarith
qed





section \<open>Balances never negative\<close>

lemma round_half_even_nonneg: "0 \<le> x \<Longrightarrow> 0 \<le> round_half_even x s"
  by (simp add: round_half_even_def Let_def pos_imp_zdiv_nonneg_iff)

lemma round53_nonneg: "0 \<le> x \<Longrightarrow> 0 \<le> round53 x"
  by (simp add: round53_def Let_def round_half_even_nonneg)

lemma int_mul_1_8_sign: "0 \<le> m \<Longrightarrow> int_mul_1_8 m = Some k \<Longrightarrow> 0 \<le> k"
  by (auto simp: int_mul_1_8_def int_mul_1_8_nonneg_def Let_def double_1_8_def
      pos_imp_zdiv_nonneg_iff round53_nonneg split: if_splits)

lemma multiplier_pos: "1 \<le> get_boost_multiplier lib t u"
  by (simp add: get_boost_multiplier_def)

lemma apply_boost_nonneg: "0 \<le> x \<Longrightarrow> 0 \<le> apply_boost lib t x u"
  using multiplier_pos [of lib t u] by (simp add: apply_boost_def)

lemma get_user_data_nonneg:
  "balances_nonneg us \<Longrightarrow> get_user_data us k = (u, us1) \<Longrightarrow> balances_nonneg us1 \<and> 0 \<le> balance u \<and> us1 k = Some u"
  by (auto simp: get_user_data_def balances_nonneg_def default_user_def split: option.splits if_splits)

lemma nonneg_upd:
  "balances_nonneg us \<Longrightarrow> 0 \<le> balance u \<Longrightarrow> balances_nonneg (us(k \<mapsto> u))"
  by (simp add: balances_nonneg_def)


lemma coinflip_play_nonneg:
  "balances_nonneg us \<Longrightarrow> 0 \<le> balance v \<Longrightarrow> 0 < mise \<Longrightarrow>
   balances_nonneg (snd (coinflip_play lib t v us uid mise g1 g2))"
  using apply_boost_nonneg [of "mise * 2" lib t v]
  by (simp add: coinflip_play_def Let_def nonneg_upd record_balance)

lemma dice_play_nonneg:
  "balances_nonneg us \<Longrightarrow> 0 \<le> balance v \<Longrightarrow> 0 < mise \<Longrightarrow>
   balances_nonneg (snd (dice_play lib t v us uid mise g1 g2))"
  using apply_boost_nonneg [of _ lib t v] int_mul_1_8_sign [of mise]
  by (auto simp: dice_play_def Let_def nonneg_upd record_balance split: option.splits)

lemma roulette_play_nonneg:
  "balances_nonneg us \<Longrightarrow> 0 \<le> balance v \<Longrightarrow> 0 < mise \<Longrightarrow>
   balances_nonneg (snd (roulette_play lib t v us uid mise c g))"
  using apply_boost_nonneg [of "mise * 2" lib t v] apply_boost_nonneg [of "mise * 35" lib t v]
  by (simp add: roulette_play_def Let_def nonneg_upd record_balance)

lemma blackjack_settle_nonneg:
  "balances_nonneg us \<Longrightarrow> 0 \<le> balance v \<Longrightarrow> 0 < mise \<Longrightarrow>
   balances_nonneg (snd (blackjack_settle lib t v us uid mise p d))"
  using apply_boost_nonneg [of "mise * 2" lib t v]
  by (simp add: blackjack_settle_def Let_def nonneg_upd record_balance)

lemma slot_multiplier_values: "slot_multiplier a b c \<in> {0, 2, 5, 10, 15, 25, 50}"
  unfolding slot_multiplier_def by (cases "a = b \<and> b = c"; cases "a = b \<or> b = c \<or> a = c") auto

lemma slot_multiplier_nonneg: "0 \<le> slot_multiplier a b c"
  using slot_multiplier_values [of a b c] by auto

lemma slot_play_nonneg:
  "balances_nonneg us \<Longrightarrow> 0 \<le> balance v \<Longrightarrow> 0 < mise \<Longrightarrow>
   balances_nonneg (snd (slot_play lib t v us uid mise g1 g2 g3))"
  using apply_boost_nonneg [of "mise * slot_multiplier (reel g1) (reel g2) (reel g3)" lib t v]
    slot_multiplier_nonneg [of "reel g1" "reel g2" "reel g3"]
  by (simp add: slot_play_def Let_def nonneg_upd record_balance)

lemma daily_nonneg:
  assumes "balances_nonneg us"
  shows "balances_nonneg (snd (daily lib now t us uid))"
proof -
  obtain u us1 where g: "get_user_data us uid = (u, us1)"
    by (cases "get_user_data us uid")
  from get_user_data_nonneg [OF assms g] apply_boost_nonneg [of 100 lib t u] g show ?thesis
    by (simp add: daily_def Let_def nonneg_upd)
qed

lemma acheter_nonneg:
  assumes "balances_nonneg us"
  shows "balances_nonneg (snd (acheter lib now us uid objet))"
proof -
  obtain u us1 where g: "get_user_data us uid = (u, us1)"
    by (cases "get_user_data us uid")
  from get_user_data_nonneg [OF assms g] g show ?thesis
    by (auto simp: acheter_def Let_def nonneg_upd split: option.splits)
qed

lemma remove_nonneg:
  assumes "balances_nonneg us"
  shows "balances_nonneg (snd (remove is_owner us member amount))"
proof -
  obtain u us1 where g: "get_user_data us member = (u, us1)"
    by (cases "get_user_data us member")
  from get_user_data_nonneg [OF assms g] g assms show ?thesis
    by (simp add: remove_def nonneg_upd)
qed

lemma give_nonneg:
  assumes "balances_nonneg us"
    and "is_owner \<longrightarrow> 0 \<le> balance (fst (get_user_data us member)) + amount"
  shows "balances_nonneg (snd (give is_owner us member amount))"
proof -
  obtain u us1 where g: "get_user_data us member = (u, us1)"
    by (cases "get_user_data us member")
  from get_user_data_nonneg [OF assms(1) g] g assms show ?thesis
    by (simp add: give_def nonneg_upd)
qed

lemma don_nonneg:
  assumes "balances_nonneg us"
  shows "balances_nonneg (snd (don us author membre membre_bot montant))"
proof -
  obtain d us1 where g1: "get_user_data us author = (d, us1)"
    by (cases "get_user_data us author")
  obtain r us2 where g2: "get_user_data us1 membre = (r, us2)"
    by (cases "get_user_data us1 membre")
  from get_user_data_nonneg [OF assms g1] have n1: "balances_nonneg us1" "0 \<le> balance d"
    by simp_all
  from get_user_data_nonneg [OF n1(1) g2] have n2: "balances_nonneg us2" "0 \<le> balance r"
    by simp_all
  from g1 g2 n1 n2 show ?thesis
    by (simp add: don_def nonneg_upd)
qed

lemma steal_nonneg:
  assumes "balances_nonneg us"
  shows "balances_nonneg (snd (steal lib t_reset now us author cible cible_bot p g))"
proof (cases "cible_bot \<or> cible = author")
  case True
  with assms show ?thesis by (simp add: steal_def)
next
  case False
  obtain u0 us1 where g1: "get_user_data us author = (u0, us1)"
    by (cases "get_user_data us author")
  obtain c us2 where g2: "get_user_data us1 cible = (c, us2)"
    by (cases "get_user_data us1 cible")
  from get_user_data_nonneg [OF assms g1] have n1: "balances_nonneg us1" "0 \<le> balance u0"
    by simp_all
  from get_user_data_nonneg [OF n1(1) g2] have n2: "balances_nonneg us2" "0 \<le> balance c"
    by simp_all
  have gain: "20 \<le> randint 20 (min 100 (balance c div 2)) g
      \<and> randint 20 (min 100 (balance c div 2)) g \<le> balance c" if "50 \<le> balance c"
  proof -
    from that have "20 \<le> balance c div 2" by linarith
    then have "20 \<le> min 100 (balance c div 2)" by simp
    from randint_range [OF this, of g] that show ?thesis by linarith
  qed
  from False g1 g2 n1 n2 gain show ?thesis
    by (auto simp: steal_def Let_def reset_steals_if_needed_def nonneg_upd)
qed


lemma bet_nonneg:
  "validate_bet u mise = None \<Longrightarrow> 0 < mise \<and> 0 \<le> balance (u\<lparr>balance := balance u - mise\<rparr>)"
  by (simp add: validate_bet_def split: if_splits)

text \<open>
  Every command keeps all balances non-negative, an owner's credit only when the amount
  does not take the account below zero.
\<close>

lemma exec_nonneg:
  assumes inv: "balances_nonneg us"
    and ok: "credit_covered us cmd"
    and run: "exec lib us cmd = Some (rep, us')"
  shows "balances_nonneg us'"
proof (cases cmd)
  case (Daily uid now t)
  with run daily_nonneg [OF inv, of lib now t uid] show ?thesis by auto
next
  case (Acheter uid objet now)
  with run acheter_nonneg [OF inv, of lib now uid objet] show ?thesis by auto
next
  case (Coinflip uid mise t g1 g2)
  obtain u us1 where g: "get_user_data us uid = (u, us1)"
    by (cases "get_user_data us uid")
  note n = get_user_data_nonneg [OF inv g]
  show ?thesis
  proof (cases "validate_bet u mise")
    case None
    from coinflip_play_nonneg [of us1 "u\<lparr>balance := balance u - mise\<rparr>" mise lib t uid g1 g2]
      bet_nonneg [OF None] n run Coinflip g None
    show ?thesis by (auto simp: coinflip_def)
  next
    case (Some r)
    with run Coinflip g n show ?thesis by (auto simp: coinflip_def)
  qed
next
  case (Dice uid mise t g1 g2)
  obtain u us1 where g: "get_user_data us uid = (u, us1)"
    by (cases "get_user_data us uid")
  note n = get_user_data_nonneg [OF inv g]
  show ?thesis
  proof (cases "validate_bet u mise")
    case None
    from dice_play_nonneg [of us1 "u\<lparr>balance := balance u - mise\<rparr>" mise lib t uid g1 g2]
      bet_nonneg [OF None] n run Dice g None
    show ?thesis by (auto simp: dice_def)
  next
    case (Some r)
    with run Dice g n show ?thesis by (auto simp: dice_def)
  qed
next
  case (Roulette uid mise c t gg)
  obtain u us1 where g: "get_user_data us uid = (u, us1)"
    by (cases "get_user_data us uid")
  note n = get_user_data_nonneg [OF inv g]
  show ?thesis
  proof (cases "validate_bet u mise")
    case None
    from roulette_play_nonneg
        [of us1 "u\<lparr>balance := balance u - mise\<rparr>" mise lib t uid "str_lower lib c" gg]
      bet_nonneg [OF None] n run Roulette g None inv
    show ?thesis by (auto simp: roulette_def Let_def split: if_splits)
  next
    case (Some r)
    with run Roulette g n inv show ?thesis by (auto simp: roulette_def Let_def split: if_splits)
  qed
next
  case (Blackjack uid mise t gs)
  obtain u us1 where g: "get_user_data us uid = (u, us1)"
    by (cases "get_user_data us uid")
  note n = get_user_data_nonneg [OF inv g]
  show ?thesis
  proof (cases "validate_bet u mise")
    case None
    with run Blackjack g obtain p d where
      "blackjack_settle lib t (u\<lparr>balance := balance u - mise\<rparr>) us1 uid mise p d = (rep, us')"
      by (auto simp: blackjack_def blackjack_play_def Let_def split: option.splits prod.splits)
    with blackjack_settle_nonneg [of us1 "u\<lparr>balance := balance u - mise\<rparr>" mise lib t uid p d]
      bet_nonneg [OF None] n
    show ?thesis by (metis snd_conv)
  next
    case (Some r)
    with run Blackjack g n show ?thesis by (auto simp: blackjack_def)
  qed
next
  case (Slot uid mise t g1 g2 g3)
  obtain u us1 where g: "get_user_data us uid = (u, us1)"
    by (cases "get_user_data us uid")
  note n = get_user_data_nonneg [OF inv g]
  show ?thesis
  proof (cases "validate_bet u mise")
    case None
    from slot_play_nonneg [of us1 "u\<lparr>balance := balance u - mise\<rparr>" mise lib t uid g1 g2 g3]
      bet_nonneg [OF None] n run Slot g None
    show ?thesis by (auto simp: slot_def)
  next
    case (Some r)
    with run Slot g n show ?thesis by (auto simp: slot_def)
  qed
next
  case (Steal author cible cible_bot t_reset now p g)
  with run steal_nonneg [OF inv, of lib t_reset now author cible cible_bot p g] show ?thesis
    by auto
next
  case (Give is_owner member amount)
  with ok have "is_owner \<longrightarrow> 0 \<le> balance (fst (get_user_data us member)) + amount"
    by (simp add: credit_covered_def)
  from give_nonneg [OF inv this] run Give show ?thesis by auto
next
  case (Remove is_owner member amount)
  with run remove_nonneg [OF inv, of is_owner member amount] show ?thesis by auto
next
  case (Don author membre membre_bot montant)
  with run don_nonneg [OF inv, of author membre membre_bot montant] show ?thesis by auto
qed


text \<open>
  C1. After every operation every balance is at least 0: this fails for the owner's
  credit command. \<^verbatim>\<open>give\<close> adds the amount as it is, so a negative amount larger than the
  balance stores a negative balance, while \<^verbatim>\<open>remove\<close> with the opposite amount clamps the
  result at 0.
\<close>

theorem give_negative_amount:
  "balance default_user = 500
   \<and> exec lib0 [1 \<mapsto> default_user] (Give True 1 (- 501))
       = Some (Done Credited, [1 \<mapsto> default_user\<lparr>balance := - 1\<rparr>])
   \<and> balance (default_user\<lparr>balance := - 1\<rparr>) < 0
   \<and> exec lib0 [1 \<mapsto> default_user] (Remove True 1 501)
       = Some (Done Debited, [1 \<mapsto> default_user\<lparr>balance := 0\<rparr>])"
  by (simp add: give_def remove_def get_user_data_def default_user_def)

section \<open>Rejection paths\<close>



















section \<open>The dealer's loop\<close>

lemma card_range: "1 \<le> get_card_value g \<and> get_card_value g \<le> 11"
  using randint_range [of 1 11 g] by (simp add: get_card_value_def)

lemma card_onto: "1 \<le> c \<Longrightarrow> c \<le> 11 \<Longrightarrow> \<exists>g. get_card_value g = c"
  using randint_onto [of 1 c 11] unfolding get_card_value_def by blast

lemma hard_total_le_value: "hard_total cards \<le> get_hand_value cards"
proof -
  have "min (int (count_list cards 11)) ((sum_list cards - 12) div 10)
        \<le> int (count_list cards 11)"
    by simp
  then show ?thesis
    by (simp add: hard_total_def get_hand_value_def reduce_aces_closed)
qed

lemma hard_total_grows:
  assumes "1 \<le> c" and "c \<le> 11"
  shows "hard_total cards + 1 \<le> hard_total (cards @ [c])"
  using assms by (simp add: hard_total_def)

lemma dealer_hits_returns_aux:
  "nat (17 - hard_total cards) \<le> n \<Longrightarrow>
   \<exists>cards'. dealer_hits gs i cards (get_hand_value cards) = Some (cards', get_hand_value cards')
            \<and> 17 \<le> get_hand_value cards'"
proof (induction n arbitrary: cards i)
  case 0
  then have "17 \<le> hard_total cards" by simp
  with hard_total_le_value [of cards] have "\<not> get_hand_value cards < 17" by simp
  then show ?case
    by (subst dealer_hits.simps) simp
next
  case (Suc n)
  show ?case
  proof (cases "get_hand_value cards < 17")
    case True
    let ?cards = "cards @ [get_card_value (gs i)]"
    from hard_total_grows [of "get_card_value (gs i)" cards] card_range [of "gs i"]
    have "hard_total cards + 1 \<le> hard_total ?cards" by simp
    with Suc.prems have "nat (17 - hard_total ?cards) \<le> n" by linarith
    from Suc.IH [OF this, of "Suc i"] obtain cards' where
      "dealer_hits gs (Suc i) ?cards (get_hand_value ?cards) = Some (cards', get_hand_value cards')"
      and "17 \<le> get_hand_value cards'"
      by blast
    with True show ?thesis
      by (subst dealer_hits.simps) auto
  next
    case False
    then show ?thesis
      by (subst dealer_hits.simps) simp
  qed
qed

text \<open>
  C10 (amended). For every sequence of card draws from 1..11 the dealer's drawing loop
  terminates, from any hand and any position in the sequence, and on exit the dealer's
  reduced hand total is at least 17; so blackjack always returns. Each drawn card
  raises by at least 1 the hard total of the hand (every 11 counted as 1), which the
  reduced value never falls below.
\<close>

theorem dealer_loop_terminates:
  "(\<exists>cards'. dealer_hits gs i cards (get_hand_value cards) = Some (cards', get_hand_value cards')
             \<and> 17 \<le> get_hand_value cards')
   \<and> (\<exists>res. blackjack lib t us uid mise gs = Some res)
   \<and> 1 \<le> get_card_value (gs i) \<and> get_card_value (gs i) \<le> 11
   \<and> hard_total cards + 1 \<le> hard_total (cards @ [get_card_value (gs i)])
   \<and> hard_total cards \<le> get_hand_value cards"
proof -
  have loop: "\<exists>cards'. dealer_hits gs i cards (get_hand_value cards)
                = Some (cards', get_hand_value cards') \<and> 17 \<le> get_hand_value cards'"
    for i cards
    by (rule dealer_hits_returns_aux [of cards "nat (17 - hard_total cards)"]) simp
  from loop [of 4 "[get_card_value (gs 2), get_card_value (gs 3)]"]
  have "\<exists>res. blackjack lib t us uid mise gs = Some res"
    by (cases "get_user_data us uid")
       (auto simp: blackjack_def blackjack_play_def Let_def split: option.splits)
  with loop [of i cards] card_range [of "gs i"]
    hard_total_grows [of "get_card_value (gs i)" cards] hard_total_le_value [of cards]
  show ?thesis by simp
qed

theorem dealer_loop_terminates_witness:
  "dealer_hits (\<lambda>i. 1) 4 [2, 2] (get_hand_value [2, 2]) = Some ([2, 2, 2, 2, 2, 2, 2, 2, 2], 18)
   \<and> get_card_value 1 = 2 \<and> hard_total [2, 2] = 4"
proof -
  have v: "get_hand_value [2, 2] = 4" "get_card_value 1 = 2" "hard_total [2, 2] = 4"
    by (simp_all add: get_hand_value_def reduce_aces_closed get_card_value_def randint_def
        hard_total_def)
  have "dealer_hits (\<lambda>i. 1) 4 [2, 2] 4 = Some ([2, 2, 2, 2, 2, 2, 2, 2, 2], 18)"
    by (simp add: dealer_hits.simps get_hand_value_def reduce_aces_closed get_card_value_def
        randint_def)
  with v dealer_loop_terminates [of "\<lambda>i. 1" 4 "[2, 2]"] show ?thesis
    by simp
qed

text \<open>
  The reduced value need not grow with a card: the hand 11, 5 is worth 16, and with a
  10 drawn it is still worth 16.
\<close>

theorem hand_value_stalls_counterexample:
  "get_hand_value [11, 5] = 16 \<and> get_hand_value ([11, 5] @ [10]) = 16
   \<and> \<not> get_hand_value [11, 5] + 1 \<le> get_hand_value ([11, 5] @ [10])"
  by (simp add: get_hand_value_def reduce_aces_closed)

section \<open>The dice duel\<close>

text \<open>
  Rounding to 53 bits moves a positive value below \<open>2^103\<close> by at most \<open>2^49\<close>, and
  never below a multiple of \<open>2^52\<close> that the value has reached.
\<close>

lemma bitlen_le_103: "0 < x \<Longrightarrow> x < 2 ^ 103 \<Longrightarrow> bitlen x \<le> 103"
  by (simp add: bitlen_le_iff_power)

lemma half_pow: "0 < s \<Longrightarrow> (2::int) ^ s = 2 * 2 ^ (s - 1)"
  by (cases s) simp_all

lemma round_half_even_cases:
  "(round_half_even x s = x div 2 ^ s \<and> 2 * (x mod 2 ^ s) \<le> 2 ^ s)
   \<or> (round_half_even x s = x div 2 ^ s + 1 \<and> 2 ^ s \<le> 2 * (x mod 2 ^ s))"
  by (auto simp: round_half_even_def Let_def)

lemma round53_near:
  assumes "0 < x" and "x < 2 ^ 103"
  shows "x - 2 ^ 49 \<le> round53 x \<and> round53 x \<le> x + 2 ^ 49"
proof (cases "bitlen x \<le> 53")
  case True
  then show ?thesis by (simp add: round53_def)
next
  case False
  define s where "s = nat (bitlen x - 53)"
  from False bitlen_le_103 [OF assms] have s: "0 < s" "s \<le> 50"
    by (simp_all add: s_def)
  define d :: int where "d = 2 ^ s"
  define h :: int where "h = 2 ^ (s - 1)"
  define q where "q = x div d"
  define r where "r = x mod d"
  have d: "d = 2 * h" unfolding d_def h_def using s(1) by (rule half_pow)
  have h: "h \<le> 2 ^ 49"
    unfolding h_def using s by (intro power_increasing) simp_all
  have dpos: "0 < d" by (simp add: d_def)
  have x: "x = q * d + r"
    using div_mult_mod_eq [of x d] by (simp add: q_def r_def)
  have r: "0 \<le> r" "r < d"
    using dpos by (simp_all add: r_def)
  have R: "round53 x = round_half_even x s * d"
    using False by (simp add: round53_def s_def d_def Let_def)
  from round_half_even_cases [of x s]
  consider (down) "round_half_even x s = q" "2 * r \<le> d"
    | (up) "round_half_even x s = q + 1" "d \<le> 2 * r"
    by (auto simp: q_def r_def d_def)
  then show ?thesis
  proof cases
    case down
    with R x have "round53 x = x - r" by simp
    with down(2) d h r show ?thesis by simp
  next
    case up
    with R x have "round53 x = x - r + d" by (simp add: algebra_simps)
    with up(2) d h r show ?thesis by simp
  qed
qed

lemma round53_grid:
  assumes "0 < x" and "x < 2 ^ 103" and "a * 2 ^ 52 \<le> x"
  shows "a * 2 ^ 52 \<le> round53 x"
proof (cases "bitlen x \<le> 53")
  case True
  with assms show ?thesis by (simp add: round53_def)
next
  case False
  define s where "s = nat (bitlen x - 53)"
  from False bitlen_le_103 [OF assms(1,2)] have s: "0 < s" "s \<le> 50"
    by (simp_all add: s_def)
  have R: "round53 x = round_half_even x s * 2 ^ s"
    using False by (simp add: round53_def s_def Let_def)
  have e: "(2::int) ^ 52 = 2 ^ (52 - s) * 2 ^ s"
    using s by (simp add: power_add [symmetric])
  have "a * 2 ^ (52 - s) * 2 ^ s \<le> x"
    using assms(3) e by (simp add: mult.assoc)
  then have "(a * 2 ^ (52 - s) * 2 ^ s) div 2 ^ s \<le> x div 2 ^ s"
    by (rule zdiv_mono1) simp
  then have "a * 2 ^ (52 - s) \<le> x div 2 ^ s"
    by simp
  also have "x div 2 ^ s \<le> round_half_even x s"
    using round_half_even_cases [of x s] by auto
  finally have "a * 2 ^ (52 - s) * 2 ^ s \<le> round_half_even x s * 2 ^ s"
    by (simp add: mult_right_mono)
  with R e show ?thesis by (simp add: mult.assoc)
qed


lemma double_1_8_times_5: "5 * double_1_8 = 9 * 2 ^ 52 + 1"
  by (simp add: double_1_8_def)

lemma int_mul_1_8_exact:
  assumes "0 < m" and "m \<le> 10 ^ 15"
  shows "int_mul_1_8 m = Some (9 * m div 5)"
proof -
  define P where "P = m * double_1_8"
  define K where "K = 9 * m div 5"
  define t where "t = 9 * m mod 5"
  have t: "0 \<le> t" "t < 5" by (simp_all add: t_def)
  have Kt: "9 * m = 5 * K + t"
    using mult_div_mod_eq [of 5 "9 * m"] by (simp add: K_def t_def)
  have "bitlen m \<le> 53"
    using assms by (simp add: bitlen_le_iff_power)
  then have f: "round53 m = m"
    by (simp add: round53_def)
  have "5 * P = m * (5 * double_1_8)"
    by (simp add: P_def)
  also have "\<dots> = (9 * m) * 2 ^ 52 + m"
    unfolding double_1_8_times_5 by (simp add: algebra_simps)
  also have "\<dots> = (5 * K + t) * 2 ^ 52 + m"
    by (simp only: Kt)
  finally have P5: "5 * P = (5 * K + t) * 2 ^ 52 + m" .
  have Ppos: "0 < P" using assms by (simp add: P_def double_1_8_def)
  have "P \<le> 10 ^ 15 * double_1_8"
    unfolding P_def using assms by (intro mult_right_mono) (simp_all add: double_1_8_def)
  then have Pub: "P < 2 ^ 103" by (simp add: double_1_8_def)
  note near = round53_near [OF Ppos Pub]
  have up: "round53 P < (K + 1) * 2 ^ 52"
    using near P5 t assms by simp
  have lo: "K * 2 ^ 52 \<le> round53 P"
  proof (cases "t = 0")
    case True
    with P5 assms have "K * 2 ^ 52 \<le> P" by simp
    from round53_grid [OF Ppos Pub this] show ?thesis .
  next
    case False
    with t have "1 \<le> t" by simp
    with near P5 assms show ?thesis by simp
  qed
  have "round53 P div 2 ^ 52 = K"
  proof -
    have "(round53 P - K * 2 ^ 52) div 2 ^ 52 = 0"
      using lo up by (intro div_pos_pos_trivial) simp_all
    moreover have "(round53 P - K * 2 ^ 52) div 2 ^ 52 = round53 P div 2 ^ 52 - K"
      by simp
    ultimately show ?thesis by simp
  qed
  moreover have "round53 P < 2 ^ 1076"
    using near Pub by simp
  ultimately show ?thesis
    using assms f by (simp add: int_mul_1_8_def int_mul_1_8_nonneg_def Let_def P_def K_def)
qed


lemma spec_floor_1_8_div: "spec_floor_1_8 m = 9 * m div 5"
proof -
  have "1.8 * real_of_int m = real_of_int (9 * m) / real_of_int 5"
    by simp
  then show ?thesis
    unfolding spec_floor_1_8_def by (simp only: floor_divide_of_int_eq)
qed

lemma multiplier_balance:
  "get_boost_multiplier lib t (u\<lparr>balance := b\<rparr>) = get_boost_multiplier lib t u"
  by (simp add: get_boost_multiplier_def has_boost_def)

text \<open>
  C9 (amended). In the dice duel, for every validated stake: equal rolls are a push that
  refunds the stake, so that the balance is again the balance before the bet; a lower
  roll forfeits the stake already deducted; a strictly higher roll credits
  \<^verbatim>\<open>int(mise * 1.8)\<close> times the multiplier, where the product is the double-precision
  one. For stakes up to \<open>10^15\<close> that is exactly \<^verbatim>\<open>floor(1.8 * stake)\<close> times the
  multiplier; for a stake so large that the product leaves the doubles' range the
  command raises after the deduction.
\<close>

theorem dice_duel:
  assumes g: "get_user_data us uid = (u, us1)"
    and stake: "0 < mise" "mise \<le> balance u"
    and rolls: "player_roll = randint 1 6 g1" "bot_roll = randint 1 6 g2"
    and m: "multiplier = get_boost_multiplier lib t u"
  shows
    "(player_roll = bot_roll \<longrightarrow>
        dice lib t us uid mise g1 g2
          = (Done Push, us1(uid \<mapsto> record_game_result u mise mise))
        \<and> balance (record_game_result u mise mise) = balance u)
     \<and> (bot_roll < player_roll \<and> mise \<le> 10 ^ 15 \<longrightarrow>
          int_mul_1_8 mise = Some (spec_floor_1_8 mise))
     \<and> (bot_roll < player_roll \<longrightarrow>
          (case int_mul_1_8 mise of
             Some k \<Rightarrow>
               dice lib t us uid mise g1 g2
                 = (Done (Won (k * multiplier)),
                    us1(uid \<mapsto> record_game_result
                                  (u\<lparr>balance := balance u - mise + k * multiplier\<rparr>)
                                  mise (k * multiplier)))
           | None \<Rightarrow>
               dice lib t us uid mise g1 g2
                 = (Raised OverflowError, us1(uid \<mapsto> u\<lparr>balance := balance u - mise\<rparr>))))
     \<and> (player_roll < bot_roll \<longrightarrow>
          dice lib t us uid mise g1 g2
            = (Done Lost, us1(uid \<mapsto> record_game_result (u\<lparr>balance := balance u - mise\<rparr>) mise 0))
          \<and> balance (record_game_result (u\<lparr>balance := balance u - mise\<rparr>) mise 0)
              = balance u - mise)"
proof -
  have d: "dice lib t us uid mise g1 g2
           = dice_play lib t (u\<lparr>balance := balance u - mise\<rparr>) us1 uid mise g1 g2"
    using g stake by (simp add: dice_def validate_bet_def)
  have tie: "player_roll = bot_roll \<longrightarrow>
        dice lib t us uid mise g1 g2
          = (Done Push, us1(uid \<mapsto> record_game_result u mise mise))
        \<and> balance (record_game_result u mise mise) = balance u"
    unfolding d using rolls by (simp add: dice_play_def Let_def record_balance)
  have win: "bot_roll < player_roll \<longrightarrow>
          (case int_mul_1_8 mise of
             Some k \<Rightarrow>
               dice lib t us uid mise g1 g2
                 = (Done (Won (k * multiplier)),
                    us1(uid \<mapsto> record_game_result
                                  (u\<lparr>balance := balance u - mise + k * multiplier\<rparr>)
                                  mise (k * multiplier)))
           | None \<Rightarrow>
               dice lib t us uid mise g1 g2
                 = (Raised OverflowError, us1(uid \<mapsto> u\<lparr>balance := balance u - mise\<rparr>)))"
    unfolding d using rolls m
    by (simp add: dice_play_def Let_def apply_boost_def multiplier_balance split: option.splits)
  have small: "bot_roll < player_roll \<and> mise \<le> 10 ^ 15 \<longrightarrow>
          int_mul_1_8 mise = Some (spec_floor_1_8 mise)"
    using stake by (simp add: int_mul_1_8_exact spec_floor_1_8_div)
  have lose: "player_roll < bot_roll \<longrightarrow>
          dice lib t us uid mise g1 g2
            = (Done Lost, us1(uid \<mapsto> record_game_result (u\<lparr>balance := balance u - mise\<rparr>) mise 0))
          \<and> balance (record_game_result (u\<lparr>balance := balance u - mise\<rparr>) mise 0)
              = balance u - mise"
    unfolding d using rolls by (simp add: dice_play_def Let_def record_balance)
  from tie small win lose show ?thesis by blast
qed

lemma whale_product: "int_mul_1_8 1250999896491806 = Some 2251799813685251"
  by code_simp

text \<open>
  The stake 1250999896491806: \<^verbatim>\<open>floor(1.8 * stake)\<close> is 2251799813685250, and a win pays
  2251799813685251.
\<close>

theorem dice_large_stake_counterexample:
  "spec_floor_1_8 1250999896491806 = 2251799813685250
   \<and> balance u_whale = 1250999896491806
   \<and> randint 1 6 0 < randint 1 6 1
   \<and> fst (dice lib0 0 [1 \<mapsto> u_whale] 1 1250999896491806 1 0) = Done (Won 2251799813685251)"
  by (simp add: spec_floor_1_8_div u_whale_def randint_def dice_def dice_play_def
      get_user_data_def validate_bet_def whale_product apply_boost_def get_boost_multiplier_def
      has_boost_def default_user_def Let_def)


theorem dice_duel_witness:
  "dice lib0 0 [1 \<mapsto> default_user] 1 100 3 9
     = (Done Push, [1 \<mapsto> default_user\<lparr>games_played := 1, total_losses := 100\<rparr>])
   \<and> int_mul_1_8 100 = Some 180 \<and> spec_floor_1_8 100 = 180
   \<and> dice lib0 0 [1 \<mapsto> default_user] 1 100 1 0
     = (Done (Won 180),
        [1 \<mapsto> default_user\<lparr>balance := 580, games_played := 1, total_winnings := 80\<rparr>])
   \<and> dice lib0 0 [1 \<mapsto> default_user] 1 100 0 1
     = (Done Lost,
        [1 \<mapsto> default_user\<lparr>balance := 400, games_played := 1, total_losses := 100\<rparr>])"
proof -
  have g: "get_user_data [1 \<mapsto> default_user] 1 = (default_user, [1 \<mapsto> default_user])"
    by (simp add: get_user_data_def)
  have st: "0 < (100::int)" "100 \<le> balance default_user"
    by (simp_all add: default_user_def)
  have r: "randint 1 6 3 = randint 1 6 9" "randint 1 6 0 < randint 1 6 1"
    "randint 1 6 0 < randint 1 6 1 \<and> (100::int) \<le> 10 ^ 15"
    by (simp_all add: randint_def)
  have mu: "get_boost_multiplier lib0 0 default_user = 1"
    by (simp add: get_boost_multiplier_def has_boost_def default_user_def)
  have fl: "spec_floor_1_8 100 = 180"
    by (simp add: spec_floor_1_8_div)
  note tie = dice_duel [OF g st refl refl refl, of 3 9 lib0 0, THEN conjunct1, THEN mp, OF r(1)]
  note small = dice_duel [OF g st refl refl refl, of 1 0 lib0 0, THEN conjunct2, THEN conjunct1,
      THEN mp, OF r(3)]
  note win = dice_duel [OF g st refl refl refl, of 1 0 lib0 0, THEN conjunct2, THEN conjunct2,
      THEN conjunct1, THEN mp, OF r(2)]
  note lose = dice_duel [OF g st refl refl refl, of 0 1 lib0 0, THEN conjunct2, THEN conjunct2,
      THEN conjunct2, THEN mp, OF r(2)]
  from small fl have k: "int_mul_1_8 100 = Some 180" by simp
  from tie win lose k fl mu show ?thesis
    by (simp add: record_game_result_def default_user_def Let_def)
qed

end
